theory Spec2Isabelle
  imports Main "HOL-Library.Char_ord" "HOL-Library.List_Lexorder"
begin

section \<open>The CNCF Slack plugin of sheriff\<close>

text \<open>
  A shallow embedding of \<^verbatim>\<open>src/permissions/plugins/cncfSlack/index.ts\<close>: the
  two memoized loaders \<^verbatim>\<open>getAllGroups\<close> and \<^verbatim>\<open>getAllUsers\<close>, the helper
  \<^verbatim>\<open>englishCommaJoin\<close> and the method \<^verbatim>\<open>CncfSlackPlugin.handleTeam\<close>.

  JavaScript strings are modelled as \<^typ>\<open>string\<close>, arrays as lists, a
  \<^verbatim>\<open>Map\<close> as a partial function. What \<^verbatim>\<open>handleTeam\<close> does to the outside
  is recorded in a value of type \<open>run\<close>: the texts handed to
  \<^verbatim>\<open>builder.addContext\<close>, the mutating calls made on the Slack client, and
  whether the method returned or threw. The \<^verbatim>\<open>console.info\<close> lines repeat
  the \<^verbatim>\<open>addContext\<close> texts and are not recorded.
\<close>

subsection \<open>String primitives of JavaScript\<close>

text \<open>
  \<^verbatim>\<open>String.prototype.toLowerCase\<close>, on the ASCII letters (GitHub user names
  are ASCII); other characters are left as they are.
\<close>

definition toLowerChar :: "char \<Rightarrow> char" where
  "toLowerChar c =
     (if CHR ''A'' \<le> c \<and> c \<le> CHR ''Z'' then char_of (of_char c + (32::nat)) else c)"

definition toLowerCase :: "string \<Rightarrow> string" where
  "toLowerCase s = map toLowerChar s"

text \<open>
  \<^verbatim>\<open>s.replace(pat, rep)\<close> with a string pattern: the first occurrence of
  \<open>pat\<close> in \<open>s\<close> is replaced, wherever it stands.
\<close>

fun replace :: "string \<Rightarrow> string \<Rightarrow> string \<Rightarrow> string" where
  "replace pat rep [] = (if pat = [] then rep else [])"
| "replace pat rep (c # cs) =
     (if take (length pat) (c # cs) = pat then rep @ drop (length pat) (c # cs)
      else c # replace pat rep cs)"

text \<open>\<^verbatim>\<open>arr.join(sep)\<close> on an array of strings.\<close>

fun join :: "string \<Rightarrow> string list \<Rightarrow> string" where
  "join sep [] = []"
| "join sep [x] = x"
| "join sep (x # y # ys) = x @ sep @ join sep (y # ys)"

subsection \<open>Data\<close>

text \<open>
  The interfaces \<^verbatim>\<open>UserGroup\<close> and \<^verbatim>\<open>CncfPerson\<close>. The fields
  \<^verbatim>\<open>id\<close> and \<^verbatim>\<open>name\<close> of the source are \<open>group_id\<close>, \<open>group_name\<close>
  and \<open>person_name\<close> here, since a field name is a constant of the theory.
\<close>

record UserGroup =
  group_id :: string
  date_delete :: int
  group_name :: string
  handle :: string
  users :: "string list"
  is_external :: bool

record CncfPerson =
  person_name :: string
  email :: string
  github :: string
  slack_id :: string
  category :: string

text \<open>
  Modelled from the spec: \<^verbatim>\<open>TeamConfig\<close> is declared in
  \<^verbatim>\<open>src/permissions/types\<close>, which is not among the sources. The fields are the
  ones \<^verbatim>\<open>handleTeam\<close> reads: \<^verbatim>\<open>name\<close>, the optional \<^verbatim>\<open>displayName\<close>,
  the arrays \<^verbatim>\<open>maintainers\<close> and \<^verbatim>\<open>members\<close>, and \<^verbatim>\<open>slack\<close>, which
  is absent (or false), \<^verbatim>\<open>true\<close>, or a handle.
\<close>

datatype slack_setting = SlackUnset | SlackTrue | SlackHandle string

record TeamConfig =
  team_name :: string
  displayName :: "string option"
  slack :: slack_setting
  maintainers :: "string list"
  members :: "string list"

subsection \<open>getAllGroups\<close>

text \<open>
  The argument of \<^verbatim>\<open>client.usergroups.list\<close>. The Slack client is a parameter
  of the model: \<open>usergroups_list\<close> maps the request to \<^verbatim>\<open>result.usergroups\<close>.
\<close>

record list_request =
  include_users :: bool
  include_disabled :: bool

definition listRequest :: list_request where
  "listRequest = \<lparr>include_users = True, include_disabled = True\<rparr>"

definition getAllGroups :: "(list_request \<Rightarrow> UserGroup list) \<Rightarrow> UserGroup list" where
  "getAllGroups usergroups_list =
     filter (\<lambda>g. \<not> is_external g) (usergroups_list listRequest)"

subsection \<open>getAllUsers\<close>

record directory =
  cncfBySlackID :: "string \<rightharpoonup> CncfPerson"
  cncfByGithub :: "string \<rightharpoonup> CncfPerson"

text \<open>
  The loop over \<^verbatim>\<open>peopleData\<close>. \<open>githubUsername\<close> is the right-hand side of
  line 74; its second \<^verbatim>\<open>replace\<close> has the string \<^verbatim>\<open>'//$/'\<close> as its
  pattern, not a regular expression. The entry is updated in place, so both maps hold
  the entry with the rewritten \<^verbatim>\<open>github\<close> field.
\<close>

definition githubUsername :: "string \<Rightarrow> string" where
  "githubUsername s = replace ''//$/'' [] (replace ''https://github.com/'' [] s)"

fun indexPeople :: "CncfPerson list \<Rightarrow> directory \<Rightarrow> directory" where
  "indexPeople [] d = d"
| "indexPeople (entry # rest) d =
     (if slack_id entry \<noteq> []
      then let entry' = entry\<lparr>github := githubUsername (github entry)\<rparr>
           in indexPeople rest
                \<lparr>cncfBySlackID = (cncfBySlackID d)(slack_id entry' \<mapsto> entry'),
                 cncfByGithub = (cncfByGithub d)(github entry' \<mapsto> entry')\<rparr>
      else indexPeople rest d)"

definition getAllUsers :: "CncfPerson list \<Rightarrow> directory" where
  "getAllUsers peopleData =
     indexPeople peopleData \<lparr>cncfBySlackID = Map.empty, cncfByGithub = Map.empty\<rparr>"

subsection \<open>englishCommaJoin\<close>

definition englishCommaJoin :: "string list \<Rightarrow> string" where
  "englishCommaJoin arr =
     (if length arr \<le> 1 then join '','' arr
      else join '', '' (take (length arr - 2) arr) @ '' and '' @ arr ! (length arr - 1))"

subsection \<open>What a run of handleTeam does\<close>

text \<open>
  The four \<^verbatim>\<open>builder.addContext\<close> call sites, with the values interpolated
  into the text; \<open>contextText\<close> is the text itself.
\<close>

datatype context_message =
    Creating string
  | UpdatingName string string string
  | Evicting string string
  | Adding string string

fun contextText :: "context_message \<Rightarrow> string" where
  "contextText (Creating groupName) =
     '':slack: :tada: Creating Slack User Group with handle `'' @ groupName
       @ ''` as it did not exist''"
| "contextText (UpdatingName h old new) =
     '':slack: :pencil2: Updating Slack User Group Name for `'' @ h @ ''` from `'' @ old
       @ ''` :arrow_right: `'' @ new @ ''`''"
| "contextText (Evicting who h) =
     '':slack: :skull_and_crossbones: Evicting '' @ who
       @ '' out of Slack User Group `'' @ h @ ''`''"
| "contextText (Adding who h) =
     '':slack: :new: Adding `'' @ who @ ''` to Slack User Group `'' @ h @ ''`''"

text \<open>
  The three mutating calls: \<^verbatim>\<open>usergroups.create\<close> (handle, name),
  \<^verbatim>\<open>usergroups.update\<close> (usergroup, name) and \<^verbatim>\<open>usergroups.users.update\<close>
  (usergroup, users). The last one carries the array of ids; on the wire it is
  \<open>usersParam\<close> of that array.
\<close>

datatype slack_call =
    UsergroupsCreate string string
  | UsergroupsUpdate string string
  | UsergroupsUsersUpdate string "string list"


datatype completion = Returned | ThrewTypeError

record run =
  contexts :: "context_message list"
  calls :: "slack_call list"
  completion :: completion

definition start :: run where
  "start = \<lparr>contexts = [], calls = [], completion = Returned\<rparr>"

definition addContext :: "context_message \<Rightarrow> run \<Rightarrow> run" where
  "addContext m r = r\<lparr>contexts := contexts r @ [m]\<rparr>"

text \<open>A mutating call, made only under \<^verbatim>\<open>if (!IS_DRY_RUN)\<close>.\<close>

definition invoke :: "bool \<Rightarrow> slack_call \<Rightarrow> run \<Rightarrow> run" where
  "invoke IS_DRY_RUN c r = (if \<not> IS_DRY_RUN then r\<lparr>calls := calls r @ [c]\<rparr> else r)"

subsection \<open>handleTeam\<close>

text \<open>
  \<^verbatim>\<open>!team.slack\<close> is true for an absent or false setting and for the empty
  string; \<^verbatim>\<open>team.displayName || team.name\<close> takes the name for an absent or
  empty display name.
\<close>

definition declaresSlack :: "TeamConfig \<Rightarrow> bool" where
  "declaresSlack team =
     (case slack team of SlackUnset \<Rightarrow> False | SlackTrue \<Rightarrow> True | SlackHandle h \<Rightarrow> h \<noteq> [])"

definition groupName :: "TeamConfig \<Rightarrow> string" where
  "groupName team =
     (case slack team of SlackTrue \<Rightarrow> team_name team | SlackHandle h \<Rightarrow> h | SlackUnset \<Rightarrow> [])"

definition userGroupName :: "TeamConfig \<Rightarrow> string" where
  "userGroupName team =
     (case displayName team of
        None \<Rightarrow> team_name team
      | Some d \<Rightarrow> if d = [] then team_name team else d)"

text \<open>
  Lines 97 to 133: the group with the handle, or a new one. \<open>created_id\<close> is the
  id in the response of \<^verbatim>\<open>usergroups.create\<close>. The list fetched again after
  the creation is not read by the rest of the method.
\<close>

definition ensureGroup ::
  "bool \<Rightarrow> string \<Rightarrow> UserGroup list \<Rightarrow> string \<Rightarrow> string \<Rightarrow> run \<Rightarrow> UserGroup \<times> run" where
  "ensureGroup IS_DRY_RUN created_id groups gname ugname r =
     (case find (\<lambda>g. handle g = gname) groups of
        Some g \<Rightarrow> (g, r)
      | None \<Rightarrow>
          (\<lparr>group_id = (if \<not> IS_DRY_RUN then created_id else ''NEW_USER_GROUP_ID''),
            date_delete = 0, group_name = ugname, handle = gname, users = [],
            is_external = False\<rparr>,
           invoke IS_DRY_RUN (UsergroupsCreate gname ugname) (addContext (Creating gname) r)))"

text \<open>Lines 135 to 154.\<close>

definition checkName :: "bool \<Rightarrow> UserGroup \<Rightarrow> string \<Rightarrow> run \<Rightarrow> run" where
  "checkName IS_DRY_RUN existingGroup ugname r =
     (if group_name existingGroup \<noteq> ugname
      then invoke IS_DRY_RUN (UsergroupsUpdate (group_id existingGroup) ugname)
             (addContext (UpdatingName (handle existingGroup) (group_name existingGroup) ugname) r)
      else r)"

text \<open>Lines 156 to 161: the loop that fills \<^verbatim>\<open>expectedUserIds\<close>.\<close>

fun collectUserIds :: "(string \<rightharpoonup> CncfPerson) \<Rightarrow> string list \<Rightarrow> string list" where
  "collectUserIds byGithub [] = []"
| "collectUserIds byGithub (username # rest) =
     (case byGithub (toLowerCase username) of
        None \<Rightarrow> collectUserIds byGithub rest
      | Some cncfUser \<Rightarrow> slack_id cncfUser # collectUserIds byGithub rest)"

text \<open>
  \<^verbatim>\<open>expectedUserIds\<close> after the \<^verbatim>\<open>sort()\<close> of line 164. Without a
  comparator, \<^verbatim>\<open>sort()\<close> orders strings by their code units: \<open>sort\<close> on
  \<^typ>\<open>string list\<close>, in the lexicographic order of the characters' codes.
\<close>

definition expectedUserIds :: "directory \<Rightarrow> TeamConfig \<Rightarrow> string list" where
  "expectedUserIds dir team =
     sort (collectUserIds (cncfByGithub dir) (maintainers team @ members team))"

text \<open>
  Lines 170 to 174. \<^verbatim>\<open>cncfBySlackID.get(userId)!.github\<close> throws a TypeError
  when the id is not in the map: the result is \<open>None\<close> then.
\<close>

fun usernamesToAdd ::
  "(string \<rightharpoonup> CncfPerson) \<Rightarrow> string list \<Rightarrow> string list \<Rightarrow> string list option" where
  "usernamesToAdd bySlackID current [] = Some []"
| "usernamesToAdd bySlackID current (userId # rest) =
     (if userId \<notin> set current
      then (case bySlackID userId of
              None \<Rightarrow> None
            | Some cncfUser \<Rightarrow>
                map_option ((#) (github cncfUser)) (usernamesToAdd bySlackID current rest))
      else usernamesToAdd bySlackID current rest)"

text \<open>Lines 175 to 180.\<close>

fun usernamesToRemove ::
  "(string \<rightharpoonup> CncfPerson) \<Rightarrow> string list \<Rightarrow> string list \<Rightarrow> string list" where
  "usernamesToRemove bySlackID expected [] = []"
| "usernamesToRemove bySlackID expected (userId # rest) =
     (if userId \<notin> set expected
      then (case bySlackID userId of
              Some cncfUser \<Rightarrow> ''`'' @ github cncfUser @ ''`''
            | None \<Rightarrow> ''<@'' @ userId @ ''>'')
           # usernamesToRemove bySlackID expected rest
      else usernamesToRemove bySlackID expected rest)"

text \<open>
  Lines 156 to 213. Two arrays of strings have the same \<^verbatim>\<open>JSON.stringify\<close>
  exactly when they are equal.
\<close>

definition syncMembers :: "bool \<Rightarrow> directory \<Rightarrow> TeamConfig \<Rightarrow> UserGroup \<Rightarrow> run \<Rightarrow> run" where
  "syncMembers IS_DRY_RUN dir team existingGroup r =
     (let expected = expectedUserIds dir team;
          current = sort (users existingGroup)
      in if current = expected then r
         else (case usernamesToAdd (cncfBySlackID dir) current expected of
                 None \<Rightarrow> r\<lparr>completion := ThrewTypeError\<rparr>
               | Some toAdd \<Rightarrow>
                   (let toRemove = usernamesToRemove (cncfBySlackID dir) expected current;
                        r1 = (if toRemove \<noteq> []
                              then addContext (Evicting (englishCommaJoin toRemove)
                                                        (handle existingGroup)) r
                              else r);
                        r2 = (if toAdd \<noteq> []
                              then addContext (Adding (englishCommaJoin toAdd)
                                                      (handle existingGroup)) r1
                              else r1)
                    in invoke IS_DRY_RUN
                         (UsergroupsUsersUpdate (group_id existingGroup) expected) r2)))"

definition handleTeam ::
  "bool \<Rightarrow> CncfPerson list \<Rightarrow> (list_request \<Rightarrow> UserGroup list) \<Rightarrow> string \<Rightarrow> TeamConfig \<Rightarrow> run" where
  "handleTeam IS_DRY_RUN peopleData usergroups_list created_id team =
     (if \<not> declaresSlack team then start
      else (let groups = getAllGroups usergroups_list;
                dir = getAllUsers peopleData;
                (existingGroup, r) =
                   ensureGroup IS_DRY_RUN created_id groups (groupName team)
                     (userGroupName team) start
            in syncMembers IS_DRY_RUN dir team existingGroup
                 (checkName IS_DRY_RUN existingGroup (userGroupName team) r)))"

subsection \<open>The Slack workspace after a run\<close>

text \<open>
  Modelled from the spec: the Slack workspace is not code of the repository. These are
  the collaborator operations \<^verbatim>\<open>createGroup\<close>, \<^verbatim>\<open>renameGroup\<close> and
  \<^verbatim>\<open>setMembers\<close> of the spec, on the list of the workspace's groups:
  \<^verbatim>\<open>usergroups.create\<close> adds a group with the id it returns, the handle and the name,
  and no users; \<^verbatim>\<open>usergroups.update\<close> sets the name of the group with the id;
  \<^verbatim>\<open>usergroups.users.update\<close> sets its users. \<open>stored\<close> is what the workspace
  keeps of the ids it is sent: the array as it is, or without duplicates, or in an order
  of its own.
\<close>

definition createGroup :: "string \<Rightarrow> string \<Rightarrow> string \<Rightarrow> UserGroup list \<Rightarrow> UserGroup list" where
  "createGroup created_id h n gs =
     gs @ [\<lparr>group_id = created_id, date_delete = 0, group_name = n, handle = h, users = [],
            is_external = False\<rparr>]"

definition renameGroup :: "string \<Rightarrow> string \<Rightarrow> UserGroup list \<Rightarrow> UserGroup list" where
  "renameGroup i n gs = map (\<lambda>g. if group_id g = i then g\<lparr>group_name := n\<rparr> else g) gs"

definition setMembers ::
  "(string list \<Rightarrow> string list) \<Rightarrow> string \<Rightarrow> string list \<Rightarrow> UserGroup list \<Rightarrow> UserGroup list" where
  "setMembers stored i ids gs =
     map (\<lambda>g. if group_id g = i then g\<lparr>users := stored ids\<rparr> else g) gs"

fun slackApply ::
  "(string list \<Rightarrow> string list) \<Rightarrow> string \<Rightarrow> slack_call \<Rightarrow> UserGroup list \<Rightarrow> UserGroup list" where
  "slackApply stored created_id (UsergroupsCreate h n) gs = createGroup created_id h n gs"
| "slackApply stored created_id (UsergroupsUpdate i n) gs = renameGroup i n gs"
| "slackApply stored created_id (UsergroupsUsersUpdate i ids) gs = setMembers stored i ids gs"

text \<open>What \<^verbatim>\<open>usergroups.list\<close> answers after the calls of a run have been applied.\<close>

definition afterRun ::
  "(string list \<Rightarrow> string list) \<Rightarrow> string \<Rightarrow> run \<Rightarrow> (list_request \<Rightarrow> UserGroup list)
     \<Rightarrow> list_request \<Rightarrow> UserGroup list" where
  "afterRun stored created_id r usergroups_list req =
     fold (slackApply stored created_id) (calls r) (usergroups_list req)"

subsection \<open>Invariants of the directory indexes\<close>

text \<open>
  Every person found under a GitHub name is also found under their Slack id, and no
  indexed person has an empty Slack id.
\<close>

definition linked :: "directory \<Rightarrow> bool" where
  "linked d \<longleftrightarrow>
     (\<forall>k p. cncfByGithub d k = Some p \<longrightarrow> cncfBySlackID d (slack_id p) \<noteq> None)"

definition identified :: "directory \<Rightarrow> bool" where
  "identified d \<longleftrightarrow>
     cncfBySlackID d [] = None
     \<and> (\<forall>k p. cncfBySlackID d k = Some p \<longrightarrow> slack_id p \<noteq> [])
     \<and> (\<forall>k p. cncfByGithub d k = Some p \<longrightarrow> slack_id p \<noteq> [])"

subsection \<open>Concrete inputs\<close>

text \<open>
  An entry of \<^verbatim>\<open>people.json\<close> with the given \<^verbatim>\<open>github\<close> and
  \<^verbatim>\<open>slack_id\<close>, a team with \<^verbatim>\<open>slack: true\<close> and no display name, a
  user group whose name is its handle, and a Slack client that lists the given groups.
\<close>

definition examplePerson :: "string \<Rightarrow> string \<Rightarrow> CncfPerson" where
  "examplePerson gh sid =
     \<lparr>person_name = [], email = [], github = gh, slack_id = sid, category = []\<rparr>"

definition exampleTeam :: "string \<Rightarrow> string list \<Rightarrow> string list \<Rightarrow> TeamConfig" where
  "exampleTeam n ma me =
     \<lparr>team_name = n, displayName = None, slack = SlackTrue, maintainers = ma, members = me\<rparr>"

definition exampleGroup :: "string \<Rightarrow> string \<Rightarrow> string list \<Rightarrow> UserGroup" where
  "exampleGroup i h us =
     \<lparr>group_id = i, date_delete = 0, group_name = h, handle = h, users = us,
      is_external = False\<rparr>"

definition listing :: "UserGroup list \<Rightarrow> list_request \<Rightarrow> UserGroup list" where
  "listing gs req = gs"

section \<open>Properties\<close>

subsection \<open>The recorded run\<close>

lemma contexts_addContext: "contexts (addContext m r) = contexts r @ [m]"
  by (simp add: addContext_def)

lemma calls_addContext: "calls (addContext m r) = calls r"
  by (simp add: addContext_def)

lemma completion_addContext: "completion (addContext m r) = completion r"
  by (simp add: addContext_def)

lemma contexts_invoke: "contexts (invoke dry c r) = contexts r"
  by (simp add: invoke_def)

lemma calls_invoke: "calls (invoke dry c r) = (if dry then calls r else calls r @ [c])"
  by (simp add: invoke_def)

lemma completion_invoke: "completion (invoke dry c r) = completion r"
  by (simp add: invoke_def)

lemmas run_simps = contexts_addContext calls_addContext completion_addContext
  contexts_invoke calls_invoke completion_invoke

lemma completion_syncMembers:
  "completion (syncMembers dry dir team g r) =
     (if sort (users g) \<noteq> expectedUserIds dir team
         \<and> usernamesToAdd (cncfBySlackID dir) (sort (users g)) (expectedUserIds dir team) = None
      then ThrewTypeError else completion r)"
  by (simp add: syncMembers_def Let_def run_simps split: option.splits)

lemma completion_checkName: "completion (checkName dry g n r) = completion r"
  by (simp add: checkName_def run_simps)

lemma completion_ensureGroup:
  "completion (snd (ensureGroup dry cid gs h n r)) = completion r"
  by (simp add: ensureGroup_def run_simps split: option.splits)

text \<open>The two ways through the first part of \<open>handleTeam\<close>.\<close>

lemma handleTeam_new:
  "declaresSlack team \<Longrightarrow> find (\<lambda>g. handle g = groupName team) (getAllGroups ul) = None \<Longrightarrow>
     handleTeam dry peopleData ul cid team
       = syncMembers dry (getAllUsers peopleData) team
           \<lparr>group_id = (if dry then ''NEW_USER_GROUP_ID'' else cid), date_delete = 0,
            group_name = userGroupName team, handle = groupName team, users = [],
            is_external = False\<rparr>
           (invoke dry (UsergroupsCreate (groupName team) (userGroupName team))
              (addContext (Creating (groupName team)) start))"
  by (simp add: handleTeam_def ensureGroup_def checkName_def)

lemma handleTeam_found:
  "declaresSlack team \<Longrightarrow> find (\<lambda>g. handle g = groupName team) (getAllGroups ul) = Some g \<Longrightarrow>
     handleTeam dry peopleData ul cid team
       = syncMembers dry (getAllUsers peopleData) team g
           (checkName dry g (userGroupName team) start)"
  by (simp add: handleTeam_def ensureGroup_def)

subsection \<open>Changes to the listed groups that keep handles and the external flag\<close>

lemma getAllGroups_map:
  "(\<And>g. is_external (F g) = is_external g) \<Longrightarrow>
     getAllGroups (\<lambda>req. map F (ul req)) = map F (getAllGroups ul)"
  by (simp add: getAllGroups_def filter_map comp_def)

lemma find_handle_map:
  "(\<And>g. handle (F g) = handle g) \<Longrightarrow>
     find (\<lambda>g. handle g = h) (map F gs) = map_option F (find (\<lambda>g. handle g = h) gs)"
  by (induction gs) simp_all

subsection \<open>The directory indexes\<close>

lemma indexPeople_linked: "linked d \<Longrightarrow> linked (indexPeople peopleData d)"
proof (induction peopleData arbitrary: d)
  case Nil
  then show ?case by simp
next
  case (Cons entry rest)
  show ?case
  proof (cases "slack_id entry = []")
    case True
    then show ?thesis using Cons by simp
  next
    case False
    let ?e = "entry\<lparr>github := githubUsername (github entry)\<rparr>"
    let ?d = "\<lparr>cncfBySlackID = (cncfBySlackID d)(slack_id ?e \<mapsto> ?e),
               cncfByGithub = (cncfByGithub d)(github ?e \<mapsto> ?e)\<rparr>"
    have "linked ?d"
      using Cons.prems unfolding linked_def by (auto split: if_splits)
    then have "linked (indexPeople rest ?d)" by (rule Cons.IH)
    then show ?thesis using False by (simp add: Let_def)
  qed
qed

lemma getAllUsers_linked: "linked (getAllUsers peopleData)"
  unfolding getAllUsers_def by (rule indexPeople_linked) (simp add: linked_def)

lemma indexPeople_identified: "identified d \<Longrightarrow> identified (indexPeople peopleData d)"
proof (induction peopleData arbitrary: d)
  case Nil
  then show ?case by simp
next
  case (Cons entry rest)
  show ?case
  proof (cases "slack_id entry = []")
    case True
    then show ?thesis using Cons by simp
  next
    case False
    let ?e = "entry\<lparr>github := githubUsername (github entry)\<rparr>"
    let ?d = "\<lparr>cncfBySlackID = (cncfBySlackID d)(slack_id ?e \<mapsto> ?e),
               cncfByGithub = (cncfByGithub d)(github ?e \<mapsto> ?e)\<rparr>"
    have "identified ?d"
      using Cons.prems False unfolding identified_def by (auto split: if_splits)
    then have "identified (indexPeople rest ?d)" by (rule Cons.IH)
    then show ?thesis using False by (simp add: Let_def)
  qed
qed

lemma getAllUsers_identified: "identified (getAllUsers peopleData)"
  unfolding getAllUsers_def by (rule indexPeople_identified) (simp add: identified_def)

lemma indexPeople_filter:
  "indexPeople (filter (\<lambda>entry. slack_id entry \<noteq> []) peopleData) d = indexPeople peopleData d"
  by (induction peopleData arbitrary: d) (simp_all add: Let_def)

lemma getAllUsers_filter:
  "getAllUsers (filter (\<lambda>entry. slack_id entry \<noteq> []) peopleData) = getAllUsers peopleData"
  by (simp add: getAllUsers_def indexPeople_filter)

lemma getAllUsers_skip:
  "getAllUsers (before @ entry\<lparr>slack_id := []\<rparr> # after) = getAllUsers (before @ after)"
proof -
  have "filter (\<lambda>e. slack_id e \<noteq> []) (before @ entry\<lparr>slack_id := []\<rparr> # after)
      = filter (\<lambda>e. slack_id e \<noteq> []) (before @ after)"
    by simp
  then show ?thesis
    by (metis getAllUsers_filter)
qed

subsection \<open>The expected user ids\<close>

lemma set_collectUserIds:
  "set (collectUserIds byGithub names) =
     {slack_id p |u p. u \<in> set names \<and> byGithub (toLowerCase u) = Some p}"
  by (induction names) (auto split: option.splits)

lemma usernamesToAdd_defined:
  "\<forall>i\<in>set expected. bySlackID i \<noteq> None \<Longrightarrow>
     usernamesToAdd bySlackID current expected \<noteq> None"
  by (induction expected) (auto split: option.splits)

lemma expected_known:
  "i \<in> set (expectedUserIds (getAllUsers peopleData) team) \<Longrightarrow>
     cncfBySlackID (getAllUsers peopleData) i \<noteq> None"
  using getAllUsers_linked [of peopleData]
  by (auto simp: expectedUserIds_def set_collectUserIds linked_def)

lemma usernamesToAdd_expected:
  "usernamesToAdd (cncfBySlackID (getAllUsers peopleData)) current
     (expectedUserIds (getAllUsers peopleData) team) \<noteq> None"
  by (rule usernamesToAdd_defined) (simp add: expected_known)

subsection \<open>Case of the directory names\<close>

text \<open>
  C2, at the input where it fails. The directory entry has the GitHub name
  \<open>Alice\<close>; after the URL prefix is stripped it is indexed under \<open>Alice\<close>, as
  written. The lookup key is the team's user name in lower case, \<open>alice\<close>, so
  neither \<open>Alice\<close> nor \<open>alice\<close> in the team resolves to the entry, although both
  equal the stored name up to letter case. A directory name that is already in
  lower case is matched (last conjunct).
\<close>

theorem mixed_case_directory_name_is_not_matched:
  "cncfByGithub (getAllUsers [examplePerson ''https://github.com/Alice'' ''U1'']) ''Alice''
     = Some (examplePerson ''Alice'' ''U1'')
   \<and> cncfByGithub (getAllUsers [examplePerson ''https://github.com/Alice'' ''U1'']) ''alice''
     = None
   \<and> expectedUserIds (getAllUsers [examplePerson ''https://github.com/Alice'' ''U1''])
        (exampleTeam ''infra'' [] [''Alice'']) = []
   \<and> expectedUserIds (getAllUsers [examplePerson ''https://github.com/Alice'' ''U1''])
        (exampleTeam ''infra'' [] [''alice'']) = []
   \<and> expectedUserIds (getAllUsers [examplePerson ''https://github.com/alice'' ''U1''])
        (exampleTeam ''infra'' [] [''Alice'']) = [''U1'']"
  by code_simp

subsection \<open>The comma join\<close>

text \<open>
  C3, at the inputs where it fails. \<open>englishCommaJoin\<close> keeps the first
  \<open>length arr - 2\<close> elements and the last one, so the element before the last is
  dropped: two names give \<open>" and B"\<close>, three give \<open>"A and C"\<close>. A single name is
  returned as it is.
\<close>

theorem englishCommaJoin_drops_second_to_last:
  "englishCommaJoin [''A''] = ''A''
   \<and> englishCommaJoin [''A'', ''B''] = '' and B''
   \<and> englishCommaJoin [''A'', ''B'', ''C''] = ''A and C''"
  by (simp add: englishCommaJoin_def)

subsection \<open>The lookup of an added member\<close>

text \<open>
  C8: for every team, directory and group listing, in both modes, \<open>handleTeam\<close>
  returns: the lookup \<^verbatim>\<open>cncfBySlackID.get(userId)!\<close> of line 172 finds a person for
  every id it is asked for, since each expected id is the Slack id of an entry of
  \<open>cncfByGithub\<close>, and each such entry was put into \<open>cncfBySlackID\<close> under that id.
\<close>

theorem added_member_lookup_never_fails:
  "completion (handleTeam IS_DRY_RUN peopleData usergroups_list created_id team) = Returned"
proof (cases "declaresSlack team")
  case False
  then show ?thesis by (simp add: handleTeam_def start_def)
next
  case True
  then show ?thesis
    by (simp add: handleTeam_def Let_def split_beta completion_syncMembers
        completion_checkName completion_ensureGroup start_def usernamesToAdd_expected)
qed

subsection \<open>Entries without a Slack id\<close>

text \<open>
  C9: an entry of \<^verbatim>\<open>people.json\<close> whose \<^verbatim>\<open>slack_id\<close> is the empty string is
  left out of both indexes: the directory built from a list with such an entry is the
  directory built without it, and so is the whole run of \<open>handleTeam\<close>. Hence a user
  name whose only entry has no Slack id is treated as a user name with no entry. No
  indexed person has an empty Slack id, and no expected id is empty.
\<close>

theorem entries_without_slack_id_are_not_indexed:
  "getAllUsers (before @ entry\<lparr>slack_id := []\<rparr> # after) = getAllUsers (before @ after)
   \<and> handleTeam IS_DRY_RUN (before @ entry\<lparr>slack_id := []\<rparr> # after) usergroups_list
         created_id team
       = handleTeam IS_DRY_RUN (before @ after) usergroups_list created_id team
   \<and> getAllUsers (filter (\<lambda>entry. slack_id entry \<noteq> []) peopleData) = getAllUsers peopleData
   \<and> [] \<notin> dom (cncfBySlackID (getAllUsers peopleData))
   \<and> [] \<notin> slack_id ` ran (cncfBySlackID (getAllUsers peopleData))
   \<and> [] \<notin> slack_id ` ran (cncfByGithub (getAllUsers peopleData))
   \<and> [] \<notin> set (expectedUserIds (getAllUsers peopleData) team)"
proof -
  have ident: "identified (getAllUsers peopleData)"
    by (rule getAllUsers_identified)
  have a: "[] \<notin> dom (cncfBySlackID (getAllUsers peopleData))"
    using ident by (auto simp: identified_def)
  have b: "[] \<notin> slack_id ` ran (cncfBySlackID (getAllUsers peopleData))"
    using ident unfolding identified_def ran_def by force
  have c: "[] \<notin> slack_id ` ran (cncfByGithub (getAllUsers peopleData))"
    using ident unfolding identified_def ran_def by force
  have d: "[] \<notin> set (expectedUserIds (getAllUsers peopleData) team)"
    using ident unfolding identified_def expectedUserIds_def
    by (force simp: set_collectUserIds)
  have e: "handleTeam IS_DRY_RUN (before @ entry\<lparr>slack_id := []\<rparr> # after) usergroups_list
             created_id team
       = handleTeam IS_DRY_RUN (before @ after) usergroups_list created_id team"
    by (simp only: handleTeam_def getAllUsers_skip)
  show ?thesis
    using a b c d e getAllUsers_skip getAllUsers_filter by blast
qed

subsection \<open>Dry run and live run\<close>

lemma contexts_syncMembers_mode:
  "users g' = users g \<Longrightarrow> handle g' = handle g \<Longrightarrow> contexts r' = contexts r \<Longrightarrow>
     contexts (syncMembers dry' dir team g' r') = contexts (syncMembers dry dir team g r)"
  by (simp add: syncMembers_def Let_def run_simps split: option.splits)

lemma contexts_checkName_mode:
  "group_name g' = group_name g \<Longrightarrow> handle g' = handle g \<Longrightarrow> contexts r' = contexts r \<Longrightarrow>
     contexts (checkName dry' g' n r') = contexts (checkName dry g n r)"
  by (simp add: checkName_def run_simps)

lemma ensureGroup_mode:
  "users (fst (ensureGroup dry' cid gs h n r)) = users (fst (ensureGroup dry cid gs h n r))
   \<and> handle (fst (ensureGroup dry' cid gs h n r)) = handle (fst (ensureGroup dry cid gs h n r))
   \<and> group_name (fst (ensureGroup dry' cid gs h n r))
       = group_name (fst (ensureGroup dry cid gs h n r))
   \<and> contexts (snd (ensureGroup dry' cid gs h n r))
       = contexts (snd (ensureGroup dry cid gs h n r))"
  by (simp add: ensureGroup_def run_simps split: option.splits)

lemma contexts_handleTeam_mode:
  "contexts (handleTeam dry' peopleData ul cid team)
     = contexts (handleTeam dry peopleData ul cid team)"
proof (cases "declaresSlack team")
  case False
  then show ?thesis by (simp add: handleTeam_def)
next
  case True
  show ?thesis
    using True
    apply (simp add: handleTeam_def Let_def split_beta)
    apply (rule contexts_syncMembers_mode)
      apply (simp add: ensureGroup_mode [of dry' cid _ _ _ _ dry])
     apply (simp add: ensureGroup_mode [of dry' cid _ _ _ _ dry])
    apply (rule contexts_checkName_mode)
      apply (simp add: ensureGroup_mode [of dry' cid _ _ _ _ dry])
     apply (simp add: ensureGroup_mode [of dry' cid _ _ _ _ dry])
    apply (simp add: ensureGroup_mode [of dry' cid _ _ _ _ dry])
    done
qed

lemma calls_syncMembers_dry: "calls (syncMembers True dir team g r) = calls r"
  by (simp add: syncMembers_def Let_def run_simps split: option.splits)

lemma calls_checkName_dry: "calls (checkName True g n r) = calls r"
  by (simp add: checkName_def run_simps)

lemma calls_ensureGroup_dry: "calls (snd (ensureGroup True cid gs h n r)) = calls r"
  by (simp add: ensureGroup_def run_simps split: option.splits)

lemma calls_handleTeam_dry: "calls (handleTeam True peopleData ul cid team) = []"
  by (simp add: handleTeam_def Let_def split_beta calls_syncMembers_dry calls_checkName_dry
      calls_ensureGroup_dry start_def)


lemma completion_handleTeam_mode:
  "completion (handleTeam dry' peopleData ul cid team)
     = completion (handleTeam dry peopleData ul cid team)"
  by (simp add: handleTeam_def Let_def split_beta completion_syncMembers
      completion_checkName completion_ensureGroup start_def usernamesToAdd_expected)

lemma live_calls_nonempty:
  "contexts (handleTeam False peopleData ul cid team) \<noteq> [] \<Longrightarrow>
     calls (handleTeam False peopleData ul cid team) \<noteq> []"
  by (auto simp: handleTeam_def ensureGroup_def checkName_def syncMembers_def Let_def run_simps
      start_def usernamesToAdd_expected split: option.splits if_splits)

lemma ensureGroup_new:
  "find (\<lambda>g. handle g = h) groups = None \<Longrightarrow>
     fst (ensureGroup dry cid groups h n r)
       = \<lparr>group_id = (if dry then ''NEW_USER_GROUP_ID'' else cid), date_delete = 0,
          group_name = n, handle = h, users = [], is_external = False\<rparr>"
  by (simp add: ensureGroup_def)

text \<open>
  C5: on the same team, directory and group listing, the dry run and the live run hand
  the same sequence of texts to the builder and complete alike; the dry run makes no
  mutating call, and a live run that reports anything makes at least one. Where no group
  has the handle, the dry run goes on with a group whose id is the placeholder
  \<open>NEW_USER_GROUP_ID\<close>; the live run's group is the same but for the id, which is the
  one Slack returned.
\<close>

theorem dry_run_parity:
  "contexts (handleTeam True peopleData usergroups_list created_id team)
     = contexts (handleTeam False peopleData usergroups_list created_id team)
   \<and> completion (handleTeam True peopleData usergroups_list created_id team)
     = completion (handleTeam False peopleData usergroups_list created_id team)
   \<and> calls (handleTeam True peopleData usergroups_list created_id team) = []
   \<and> (contexts (handleTeam False peopleData usergroups_list created_id team) \<noteq> []
        \<longrightarrow> calls (handleTeam False peopleData usergroups_list created_id team) \<noteq> [])
   \<and> (find (\<lambda>g. handle g = gname) groups = None \<longrightarrow>
        group_id (fst (ensureGroup True created_id groups gname ugname r))
          = ''NEW_USER_GROUP_ID''
        \<and> fst (ensureGroup False created_id groups gname ugname r)
          = (fst (ensureGroup True created_id groups gname ugname r))\<lparr>group_id := created_id\<rparr>)"
  by (simp add: contexts_handleTeam_mode [of True _ _ _ _ False] calls_handleTeam_dry
      live_calls_nonempty ensureGroup_new completion_handleTeam_mode [of True _ _ _ _ False])

text \<open>The creation of a group for a team with one resolvable member, in both modes.\<close>

theorem dry_run_parity_witness:
  "find (\<lambda>g. handle g = ''infra'') (getAllGroups (listing [])) = None
   \<and> contexts (handleTeam True [examplePerson ''alice'' ''U1''] (listing []) ''G9''
        (exampleTeam ''infra'' [''alice''] []))
      = [Creating ''infra'', Adding ''alice'' ''infra'']
   \<and> contexts (handleTeam False [examplePerson ''alice'' ''U1''] (listing []) ''G9''
        (exampleTeam ''infra'' [''alice''] []))
      = [Creating ''infra'', Adding ''alice'' ''infra'']
   \<and> calls (handleTeam True [examplePerson ''alice'' ''U1''] (listing []) ''G9''
        (exampleTeam ''infra'' [''alice''] [])) = []
   \<and> calls (handleTeam False [examplePerson ''alice'' ''U1''] (listing []) ''G9''
        (exampleTeam ''infra'' [''alice''] []))
      = [UsergroupsCreate ''infra'' ''infra'', UsergroupsUsersUpdate ''G9'' [''U1'']]
   \<and> group_id (fst (ensureGroup True ''G9'' (getAllGroups (listing [])) ''infra'' ''infra'' start))
      = ''NEW_USER_GROUP_ID''
   \<and> group_id (fst (ensureGroup False ''G9'' (getAllGroups (listing [])) ''infra'' ''infra'' start))
      = ''G9''"
proof -
  have none: "find (\<lambda>g. handle g = ''infra'') (getAllGroups (listing [])) = None"
    by (simp add: getAllGroups_def listing_def)
  have live: "handleTeam False [examplePerson ''alice'' ''U1''] (listing []) ''G9''
        (exampleTeam ''infra'' [''alice''] [])
      = \<lparr>contexts = [Creating ''infra'', Adding ''alice'' ''infra''],
         calls = [UsergroupsCreate ''infra'' ''infra'', UsergroupsUsersUpdate ''G9'' [''U1'']],
         completion = Returned\<rparr>"
    by code_simp
  note par = dry_run_parity [of "[examplePerson ''alice'' ''U1'']" "listing []" "''G9''"
      "exampleTeam ''infra'' [''alice''] []" "''infra''" "getAllGroups (listing [])"
      "''infra''" start]
  show ?thesis
    using none live par by simp
qed

subsection \<open>Members to add and to remove\<close>

lemma usernamesToAdd_those:
  "usernamesToAdd bySlackID current expected
     = those (map (\<lambda>userId. map_option github (bySlackID userId))
               (filter (\<lambda>userId. userId \<notin> set current) expected))"
  by (induction expected) (simp_all split: option.splits)

lemma usernamesToRemove_map:
  "usernamesToRemove bySlackID expected current
     = map (\<lambda>userId. case bySlackID userId of
                        Some cncfUser \<Rightarrow> ''`'' @ github cncfUser @ ''`''
                      | None \<Rightarrow> ''<@'' @ userId @ ''>'')
         (filter (\<lambda>userId. userId \<notin> set expected) current)"
  by (induction current) simp_all

text \<open>
  C7: the names to add are those of the expected ids that are not among the group's
  users, in the order of the sorted expected ids; the identities to remove are those of
  the group's users that are not expected: the GitHub name (in backquotes) where
  \<open>cncfBySlackID\<close> knows the id, and otherwise the id itself, as the mention
  \<open><@id>\<close>. With the expected ids 1, 2, 3 and the users 2, 3, 4 the run reports the
  eviction of the person with id 4 and the addition of the person with id 1, and sets
  the users to 1, 2, 3; when the directory no longer has id 4, the eviction names
  \<open><@4>\<close>.
\<close>

theorem membership_diff:
  "usernamesToAdd bySlackID (sort current) (sort expected)
     = those (map (\<lambda>userId. map_option github (bySlackID userId))
               (filter (\<lambda>userId. userId \<notin> set current) (sort expected)))
   \<and> set (filter (\<lambda>userId. userId \<notin> set current) (sort expected))
     = set expected - set current
   \<and> usernamesToRemove bySlackID (sort expected) (sort current)
     = map (\<lambda>userId. case bySlackID userId of
                        Some cncfUser \<Rightarrow> ''`'' @ github cncfUser @ ''`''
                      | None \<Rightarrow> ''<@'' @ userId @ ''>'')
         (filter (\<lambda>userId. userId \<notin> set expected) (sort current))
   \<and> set (filter (\<lambda>userId. userId \<notin> set expected) (sort current))
     = set current - set expected
   \<and> expectedUserIds
        (getAllUsers [examplePerson ''alice'' ''1'', examplePerson ''bob'' ''2'',
                      examplePerson ''carol'' ''3'', examplePerson ''dan'' ''4''])
        (exampleTeam ''infra'' [''alice''] [''carol'', ''bob''])
     = [''1'', ''2'', ''3'']
   \<and> handleTeam False
        [examplePerson ''alice'' ''1'', examplePerson ''bob'' ''2'',
         examplePerson ''carol'' ''3'', examplePerson ''dan'' ''4'']
        (listing [exampleGroup ''G1'' ''infra'' [''4'', ''3'', ''2'']]) ''G9''
        (exampleTeam ''infra'' [''alice''] [''carol'', ''bob''])
     = \<lparr>contexts = [Evicting ''`dan`'' ''infra'', Adding ''alice'' ''infra''],
        calls = [UsergroupsUsersUpdate ''G1'' [''1'', ''2'', ''3'']],
        completion = Returned\<rparr>
   \<and> handleTeam False
        [examplePerson ''alice'' ''1'', examplePerson ''bob'' ''2'',
         examplePerson ''carol'' ''3'']
        (listing [exampleGroup ''G1'' ''infra'' [''4'', ''3'', ''2'']]) ''G9''
        (exampleTeam ''infra'' [''alice''] [''carol'', ''bob''])
     = \<lparr>contexts = [Evicting ''<@4>'' ''infra'', Adding ''alice'' ''infra''],
        calls = [UsergroupsUsersUpdate ''G1'' [''1'', ''2'', ''3'']],
        completion = Returned\<rparr>"
proof -
  have ex0: "expectedUserIds
        (getAllUsers [examplePerson ''alice'' ''1'', examplePerson ''bob'' ''2'',
                      examplePerson ''carol'' ''3'', examplePerson ''dan'' ''4''])
        (exampleTeam ''infra'' [''alice''] [''carol'', ''bob''])
     = [''1'', ''2'', ''3'']"
    by code_simp
  have ex1: "handleTeam False
        [examplePerson ''alice'' ''1'', examplePerson ''bob'' ''2'',
         examplePerson ''carol'' ''3'', examplePerson ''dan'' ''4'']
        (listing [exampleGroup ''G1'' ''infra'' [''4'', ''3'', ''2'']]) ''G9''
        (exampleTeam ''infra'' [''alice''] [''carol'', ''bob''])
     = \<lparr>contexts = [Evicting ''`dan`'' ''infra'', Adding ''alice'' ''infra''],
        calls = [UsergroupsUsersUpdate ''G1'' [''1'', ''2'', ''3'']],
        completion = Returned\<rparr>"
    by code_simp
  have ex2: "handleTeam False
        [examplePerson ''alice'' ''1'', examplePerson ''bob'' ''2'',
         examplePerson ''carol'' ''3'']
        (listing [exampleGroup ''G1'' ''infra'' [''4'', ''3'', ''2'']]) ''G9''
        (exampleTeam ''infra'' [''alice''] [''carol'', ''bob''])
     = \<lparr>contexts = [Evicting ''<@4>'' ''infra'', Adding ''alice'' ''infra''],
        calls = [UsergroupsUsersUpdate ''G1'' [''1'', ''2'', ''3'']],
        completion = Returned\<rparr>"
    by code_simp
  have add: "usernamesToAdd bySlackID (sort current) (sort expected)
     = those (map (\<lambda>userId. map_option github (bySlackID userId))
               (filter (\<lambda>userId. userId \<notin> set current) (sort expected)))"
    using usernamesToAdd_those [of bySlackID "sort current" "sort expected"] by simp
  have rem: "usernamesToRemove bySlackID (sort expected) (sort current)
     = map (\<lambda>userId. case bySlackID userId of
                        Some cncfUser \<Rightarrow> ''`'' @ github cncfUser @ ''`''
                      | None \<Rightarrow> ''<@'' @ userId @ ''>'')
         (filter (\<lambda>userId. userId \<notin> set expected) (sort current))"
    using usernamesToRemove_map [of bySlackID "sort expected" "sort current"] by simp
  have s1: "set (filter (\<lambda>userId. userId \<notin> set current) (sort expected))
     = set expected - set current"
    by auto
  have s2: "set (filter (\<lambda>userId. userId \<notin> set expected) (sort current))
     = set current - set expected"
    by auto
  show ?thesis
    using ex0 ex1 ex2 add rem s1 s2 by blast
qed

subsection \<open>Disabled groups\<close>

lemma checkName_date_delete:
  "checkName dry (g\<lparr>date_delete := x\<rparr>) n r = checkName dry g n r"
  by (simp add: checkName_def)

lemma syncMembers_date_delete:
  "syncMembers dry dir team (g\<lparr>date_delete := x\<rparr>) r = syncMembers dry dir team g r"
  by (simp add: syncMembers_def Let_def split: option.splits)

lemma handleTeam_date_delete:
  "handleTeam dry peopleData (\<lambda>req. map (\<lambda>g. g\<lparr>date_delete := stamp g\<rparr>) (ul req)) cid team
     = handleTeam dry peopleData ul cid team"
proof -
  have groups: "getAllGroups (\<lambda>req. map (\<lambda>g. g\<lparr>date_delete := stamp g\<rparr>) (ul req))
      = map (\<lambda>g. g\<lparr>date_delete := stamp g\<rparr>) (getAllGroups ul)"
    by (rule getAllGroups_map) simp
  have found: "find (\<lambda>g. handle g = h) (map (\<lambda>g. g\<lparr>date_delete := stamp g\<rparr>) gs)
      = map_option (\<lambda>g. g\<lparr>date_delete := stamp g\<rparr>) (find (\<lambda>g. handle g = h) gs)" for h gs
    by (rule find_handle_map) simp
  show ?thesis
    by (simp add: handleTeam_def groups ensureGroup_def found Let_def
        checkName_date_delete syncMembers_date_delete split: option.splits)
qed

text \<open>
  C10: the request to \<^verbatim>\<open>usergroups.list\<close> asks for disabled groups; what
  \<open>getAllGroups\<close> returns are exactly the listed groups that are not external, so none
  of them is external; and \<^verbatim>\<open>date_delete\<close> is never read: changing the deletion
  timestamps of the listed groups in any way changes neither which groups are kept nor
  anything in the run of \<open>handleTeam\<close>. A deleted group is therefore matched by handle,
  renamed and given members like any other.
\<close>

theorem deleted_groups_are_listed:
  "include_disabled listRequest
   \<and> (\<forall>g\<in>set (getAllGroups usergroups_list). \<not> is_external g)
   \<and> set (getAllGroups usergroups_list)
       = {g \<in> set (usergroups_list listRequest). \<not> is_external g}
   \<and> getAllGroups (\<lambda>req. map (\<lambda>g. g\<lparr>date_delete := stamp g\<rparr>) (usergroups_list req))
       = map (\<lambda>g. g\<lparr>date_delete := stamp g\<rparr>) (getAllGroups usergroups_list)
   \<and> handleTeam IS_DRY_RUN peopleData
        (\<lambda>req. map (\<lambda>g. g\<lparr>date_delete := stamp g\<rparr>) (usergroups_list req)) created_id team
       = handleTeam IS_DRY_RUN peopleData usergroups_list created_id team"
proof -
  have "getAllGroups (\<lambda>req. map (\<lambda>g. g\<lparr>date_delete := stamp g\<rparr>) (usergroups_list req))
       = map (\<lambda>g. g\<lparr>date_delete := stamp g\<rparr>) (getAllGroups usergroups_list)"
    by (rule getAllGroups_map) simp
  then show ?thesis
    by (simp add: handleTeam_date_delete) (auto simp: getAllGroups_def listRequest_def)
qed

text \<open>
  A deleted group with the team's handle and an external group with the same handle:
  the deleted one is kept, renamed and given the team's member.
\<close>

theorem deleted_groups_are_listed_witness:
  "getAllGroups
     (listing [(exampleGroup ''G1'' ''old'' [])\<lparr>date_delete := 1700000000, handle := ''infra''\<rparr>,
               (exampleGroup ''G2'' ''infra'' [])\<lparr>is_external := True\<rparr>])
     = [(exampleGroup ''G1'' ''old'' [])\<lparr>date_delete := 1700000000, handle := ''infra''\<rparr>]
   \<and> \<not> is_external
         ((exampleGroup ''G1'' ''old'' [])\<lparr>date_delete := 1700000000, handle := ''infra''\<rparr>)
   \<and> handleTeam False [examplePerson ''alice'' ''U1'']
        (listing [(exampleGroup ''G1'' ''old'' [])\<lparr>date_delete := 1700000000, handle := ''infra''\<rparr>,
                  (exampleGroup ''G2'' ''infra'' [])\<lparr>is_external := True\<rparr>])
        ''G9'' (exampleTeam ''infra'' [''alice''] [])
     = \<lparr>contexts = [UpdatingName ''infra'' ''old'' ''infra'', Adding ''alice'' ''infra''],
        calls = [UsergroupsUpdate ''G1'' ''infra'', UsergroupsUsersUpdate ''G1'' [''U1'']],
        completion = Returned\<rparr>"
proof -
  have listed: "getAllGroups
     (listing [(exampleGroup ''G1'' ''old'' [])\<lparr>date_delete := 1700000000, handle := ''infra''\<rparr>,
               (exampleGroup ''G2'' ''infra'' [])\<lparr>is_external := True\<rparr>])
     = [(exampleGroup ''G1'' ''old'' [])\<lparr>date_delete := 1700000000, handle := ''infra''\<rparr>]"
    by (simp add: getAllGroups_def listing_def exampleGroup_def)
  have run: "handleTeam False [examplePerson ''alice'' ''U1'']
        (listing [(exampleGroup ''G1'' ''old'' [])\<lparr>date_delete := 1700000000, handle := ''infra''\<rparr>,
                  (exampleGroup ''G2'' ''infra'' [])\<lparr>is_external := True\<rparr>])
        ''G9'' (exampleTeam ''infra'' [''alice''] [])
     = \<lparr>contexts = [UpdatingName ''infra'' ''old'' ''infra'', Adding ''alice'' ''infra''],
        calls = [UsergroupsUpdate ''G1'' ''infra'', UsergroupsUsersUpdate ''G1'' [''U1'']],
        completion = Returned\<rparr>"
    by code_simp
  note all = deleted_groups_are_listed
      [of "listing [(exampleGroup ''G1'' ''old'' [])\<lparr>date_delete := 1700000000, handle := ''infra''\<rparr>,
                    (exampleGroup ''G2'' ''infra'' [])\<lparr>is_external := True\<rparr>]"]
  from all have "\<forall>g\<in>set (getAllGroups
     (listing [(exampleGroup ''G1'' ''old'' [])\<lparr>date_delete := 1700000000, handle := ''infra''\<rparr>,
               (exampleGroup ''G2'' ''infra'' [])\<lparr>is_external := True\<rparr>])). \<not> is_external g"
    by blast
  with listed have "\<not> is_external
         ((exampleGroup ''G1'' ''old'' [])\<lparr>date_delete := 1700000000, handle := ''infra''\<rparr>)"
    by simp
  with listed run show ?thesis by blast
qed

subsection \<open>Creation of a group\<close>

lemma usernamesToAdd_length:
  "usernamesToAdd bySlackID [] expected = Some names \<Longrightarrow> length names = length expected"
  by (induction expected arbitrary: names) (auto split: option.splits)

text \<open>
  C6: let the team declare a handle (\<^verbatim>\<open>team.slack\<close> is \<^verbatim>\<open>true\<close> or a
  non-empty string), and let no group kept by \<open>getAllGroups\<close> have it. Then the run
  reports exactly one creation, first; nothing else is reported but, when some expected
  id is resolved, one addition after it: there is no renaming, since the new group
  already has the wanted name, and no eviction. The live run creates the group with the
  handle and the name \<open>userGroupName\<close>, which is \<^verbatim>\<open>team.displayName\<close> when that is
  set (and not empty, as \<^verbatim>\<open>||\<close> reads it) and \<^verbatim>\<open>team.name\<close> otherwise; it
  makes no renaming call. The handle is \<^verbatim>\<open>team.name\<close> for \<^verbatim>\<open>slack: true\<close> and
  the given string otherwise.
\<close>

theorem creation_path:
  "declaresSlack team \<and> (\<forall>g\<in>set (getAllGroups usergroups_list). handle g \<noteq> groupName team)
   \<longrightarrow>
     (\<exists>names.
        usernamesToAdd (cncfBySlackID (getAllUsers peopleData)) []
            (expectedUserIds (getAllUsers peopleData) team) = Some names
        \<and> contexts (handleTeam IS_DRY_RUN peopleData usergroups_list created_id team)
          = Creating (groupName team)
            # (if expectedUserIds (getAllUsers peopleData) team = [] then []
               else [Adding (englishCommaJoin names) (groupName team)]))
     \<and> calls (handleTeam False peopleData usergroups_list created_id team)
       = UsergroupsCreate (groupName team) (userGroupName team)
         # (if expectedUserIds (getAllUsers peopleData) team = [] then []
            else [UsergroupsUsersUpdate created_id (expectedUserIds (getAllUsers peopleData) team)])
     \<and> group_name (fst (ensureGroup IS_DRY_RUN created_id (getAllGroups usergroups_list)
                         (groupName team) (userGroupName team) start))
       = userGroupName team
     \<and> (slack team = SlackTrue \<longrightarrow> groupName team = team_name team)
     \<and> (\<forall>h. slack team = SlackHandle h \<longrightarrow> groupName team = h)
     \<and> (\<forall>d. displayName team = Some d \<and> d \<noteq> [] \<longrightarrow> userGroupName team = d)
     \<and> (displayName team = None \<or> displayName team = Some [] \<longrightarrow>
          userGroupName team = team_name team)"
proof (intro impI, elim conjE)
  let ?dir = "getAllUsers peopleData"
  let ?E = "expectedUserIds ?dir team"
  assume decl: "declaresSlack team"
    and nomatch: "\<forall>g\<in>set (getAllGroups usergroups_list). handle g \<noteq> groupName team"
  have none: "find (\<lambda>g. handle g = groupName team) (getAllGroups usergroups_list) = None"
    using nomatch by (simp add: find_None_iff)
  obtain names where names: "usernamesToAdd (cncfBySlackID ?dir) [] ?E = Some names"
    using usernamesToAdd_expected [of peopleData "[]" team] by auto
  have len: "length names = length ?E"
    using names by (rule usernamesToAdd_length)
  have ctx: "contexts (handleTeam dry peopleData usergroups_list created_id team)
          = Creating (groupName team)
            # (if ?E = [] then [] else [Adding (englishCommaJoin names) (groupName team)])" for dry
    using names len
    by (auto simp: handleTeam_new [OF decl none] syncMembers_def Let_def run_simps start_def)
  have cls: "calls (handleTeam False peopleData usergroups_list created_id team)
       = UsergroupsCreate (groupName team) (userGroupName team)
         # (if ?E = [] then [] else [UsergroupsUsersUpdate created_id ?E])"
    using names len
    by (auto simp: handleTeam_new [OF decl none] syncMembers_def Let_def run_simps start_def)
  have grp: "group_name (fst (ensureGroup IS_DRY_RUN created_id (getAllGroups usergroups_list)
                         (groupName team) (userGroupName team) start))
       = userGroupName team"
    by (simp add: ensureGroup_def none)
  have nm: "(slack team = SlackTrue \<longrightarrow> groupName team = team_name team)
     \<and> (\<forall>h. slack team = SlackHandle h \<longrightarrow> groupName team = h)
     \<and> (\<forall>d. displayName team = Some d \<and> d \<noteq> [] \<longrightarrow> userGroupName team = d)
     \<and> (displayName team = None \<or> displayName team = Some [] \<longrightarrow>
          userGroupName team = team_name team)"
    by (auto simp: groupName_def userGroupName_def)
  show "(\<exists>names.
        usernamesToAdd (cncfBySlackID ?dir) [] ?E = Some names
        \<and> contexts (handleTeam IS_DRY_RUN peopleData usergroups_list created_id team)
          = Creating (groupName team)
            # (if ?E = [] then [] else [Adding (englishCommaJoin names) (groupName team)]))
     \<and> calls (handleTeam False peopleData usergroups_list created_id team)
       = UsergroupsCreate (groupName team) (userGroupName team)
         # (if ?E = [] then [] else [UsergroupsUsersUpdate created_id ?E])
     \<and> group_name (fst (ensureGroup IS_DRY_RUN created_id (getAllGroups usergroups_list)
                         (groupName team) (userGroupName team) start))
       = userGroupName team
     \<and> (slack team = SlackTrue \<longrightarrow> groupName team = team_name team)
     \<and> (\<forall>h. slack team = SlackHandle h \<longrightarrow> groupName team = h)
     \<and> (\<forall>d. displayName team = Some d \<and> d \<noteq> [] \<longrightarrow> userGroupName team = d)
     \<and> (displayName team = None \<or> displayName team = Some [] \<longrightarrow>
          userGroupName team = team_name team)"
    using names ctx [of IS_DRY_RUN] cls grp nm by blast
qed

text \<open>A team with a display name and a handle of its own, and no group with that handle.\<close>

theorem creation_path_witness:
  "declaresSlack ((exampleTeam ''infra'' [''alice''] [])
      \<lparr>displayName := Some ''Infra Team'', slack := SlackHandle ''infra-team''\<rparr>)
   \<and> getAllGroups (listing [exampleGroup ''G1'' ''infra'' []]) = [exampleGroup ''G1'' ''infra'' []]
   \<and> handle (exampleGroup ''G1'' ''infra'' []) \<noteq> ''infra-team''
   \<and> contexts (handleTeam True [examplePerson ''alice'' ''U1'']
        (listing [exampleGroup ''G1'' ''infra'' []]) ''G9''
        ((exampleTeam ''infra'' [''alice''] [])
           \<lparr>displayName := Some ''Infra Team'', slack := SlackHandle ''infra-team''\<rparr>))
     = [Creating ''infra-team'', Adding ''alice'' ''infra-team'']
   \<and> calls (handleTeam False [examplePerson ''alice'' ''U1'']
        (listing [exampleGroup ''G1'' ''infra'' []]) ''G9''
        ((exampleTeam ''infra'' [''alice''] [])
           \<lparr>displayName := Some ''Infra Team'', slack := SlackHandle ''infra-team''\<rparr>))
     = [UsergroupsCreate ''infra-team'' ''Infra Team'', UsergroupsUsersUpdate ''G9'' [''U1'']]"
proof -
  let ?t = "(exampleTeam ''infra'' [''alice''] [])
      \<lparr>displayName := Some ''Infra Team'', slack := SlackHandle ''infra-team''\<rparr>"
  let ?ul = "listing [exampleGroup ''G1'' ''infra'' []]"
  let ?p = "[examplePerson ''alice'' ''U1'']"
  have decl: "declaresSlack ?t"
    by (simp add: declaresSlack_def exampleTeam_def)
  have groups: "getAllGroups ?ul = [exampleGroup ''G1'' ''infra'' []]"
    by (simp add: getAllGroups_def listing_def exampleGroup_def)
  have other: "handle (exampleGroup ''G1'' ''infra'' []) \<noteq> ''infra-team''"
    by (simp add: exampleGroup_def)
  have gname: "groupName ?t = ''infra-team''"
    by (simp add: groupName_def exampleTeam_def)
  have ugname: "userGroupName ?t = ''Infra Team''"
    by (simp add: userGroupName_def exampleTeam_def)
  have hyp: "declaresSlack ?t \<and> (\<forall>g\<in>set (getAllGroups ?ul). handle g \<noteq> groupName ?t)"
    using decl other by (simp add: groups gname)
  have expected: "expectedUserIds (getAllUsers ?p) ?t = [''U1'']"
    by code_simp
  have names: "usernamesToAdd (cncfBySlackID (getAllUsers ?p)) [] [''U1''] = Some [''alice'']"
    by code_simp
  have joined: "englishCommaJoin [''alice''] = ''alice''"
    by (simp add: englishCommaJoin_def)
  note path = creation_path [of ?t ?ul ?p True "''G9''", THEN mp, OF hyp,
      unfolded expected names gname ugname]
  from path have "contexts (handleTeam True ?p ?ul ''G9'' ?t)
      = [Creating ''infra-team'', Adding ''alice'' ''infra-team'']"
    using joined by auto
  moreover from path have "calls (handleTeam False ?p ?ul ''G9'' ?t)
      = [UsergroupsCreate ''infra-team'' ''Infra Team'', UsergroupsUsersUpdate ''G9'' [''U1'']]"
    by simp
  ultimately show ?thesis
    using decl groups other by blast
qed

subsection \<open>Duplicates among the expected ids\<close>








subsection \<open>A converged group\<close>

lemma filter_slackApply:
  "filter (\<lambda>g. \<not> is_external g) (slackApply stored cid c gs)
     = slackApply stored cid c (filter (\<lambda>g. \<not> is_external g) gs)"
proof (cases c)
  case (UsergroupsCreate h n)
  then show ?thesis by (simp add: createGroup_def)
next
  case (UsergroupsUpdate i n)
  have keep: "(\<lambda>g. \<not> is_external g) \<circ> (\<lambda>g. if group_id g = i then g\<lparr>group_name := n\<rparr> else g)
      = (\<lambda>g. \<not> is_external g)"
    by (rule ext) simp
  show ?thesis
    by (simp only: UsergroupsUpdate slackApply.simps renameGroup_def filter_map keep)
next
  case (UsergroupsUsersUpdate i ids)
  have keep: "(\<lambda>g. \<not> is_external g) \<circ> (\<lambda>g. if group_id g = i then g\<lparr>users := stored ids\<rparr> else g)
      = (\<lambda>g. \<not> is_external g)"
    by (rule ext) simp
  show ?thesis
    by (simp only: UsergroupsUsersUpdate slackApply.simps setMembers_def filter_map keep)
qed

lemma filter_fold_slackApply:
  "filter (\<lambda>g. \<not> is_external g) (fold (slackApply stored cid) cs gs)
     = fold (slackApply stored cid) cs (filter (\<lambda>g. \<not> is_external g) gs)"
  by (induction cs arbitrary: gs) (simp_all add: filter_slackApply)

lemma getAllGroups_afterRun:
  "getAllGroups (afterRun stored cid r ul)
     = fold (slackApply stored cid) (calls r) (getAllGroups ul)"
  by (simp add: getAllGroups_def afterRun_def filter_fold_slackApply)

lemma find_renameGroup:
  "find (\<lambda>g. handle g = h) (renameGroup i n gs)
     = map_option (\<lambda>g. if group_id g = i then g\<lparr>group_name := n\<rparr> else g)
         (find (\<lambda>g. handle g = h) gs)"
  unfolding renameGroup_def by (rule find_handle_map) simp

lemma find_setMembers:
  "find (\<lambda>g. handle g = h) (setMembers stored i ids gs)
     = map_option (\<lambda>g. if group_id g = i then g\<lparr>users := stored ids\<rparr> else g)
         (find (\<lambda>g. handle g = h) gs)"
  unfolding setMembers_def by (rule find_handle_map) simp

lemma find_createGroup:
  "find (\<lambda>g. handle g = h) gs = None \<Longrightarrow>
     find (\<lambda>g. handle g = h) (createGroup cid h n gs)
       = Some \<lparr>group_id = cid, date_delete = 0, group_name = n, handle = h, users = [],
               is_external = False\<rparr>"
  unfolding createGroup_def by (induction gs) (simp_all split: if_splits)

lemma usernamesToAdd_present:
  "set expected \<subseteq> set current \<Longrightarrow> usernamesToAdd bySlackID current expected = Some []"
  by (induction expected) simp_all

lemma usernamesToRemove_present:
  "set current \<subseteq> set expected \<Longrightarrow> usernamesToRemove bySlackID expected current = []"
  by (induction current) simp_all

lemma contexts_syncMembers_same_set:
  "set (users g) = set (expectedUserIds dir team) \<Longrightarrow>
     contexts (syncMembers dry dir team g r) = contexts r"
  by (simp add: syncMembers_def Let_def usernamesToAdd_present usernamesToRemove_present
      run_simps)

lemma handleTeam_quiet:
  assumes "declaresSlack team"
    and "find (\<lambda>g. handle g = groupName team) (getAllGroups ul) = Some g"
    and "group_name g = userGroupName team"
    and "set (users g) = set (expectedUserIds (getAllUsers peopleData) team)"
  shows "contexts (handleTeam dry peopleData ul cid team) = []"
  using assms
  by (simp add: handleTeam_found contexts_syncMembers_same_set checkName_def start_def)

lemma handleTeam_converged:
  assumes "find (\<lambda>g. handle g = groupName team) (getAllGroups ul) = Some g"
    and "group_name g = userGroupName team"
    and "sort (users g) = expectedUserIds (getAllUsers peopleData) team"
  shows "handleTeam dry peopleData ul cid team = start"
  using assms
  by (simp add: handleTeam_def ensureGroup_def checkName_def syncMembers_def)

lemma calls_live_found:
  assumes "declaresSlack team"
    and "find (\<lambda>g. handle g = groupName team) (getAllGroups ul) = Some g"
  shows "calls (handleTeam False peopleData ul cid team)
     = (if group_name g \<noteq> userGroupName team
        then [UsergroupsUpdate (group_id g) (userGroupName team)] else [])
       @ (if sort (users g) \<noteq> expectedUserIds (getAllUsers peopleData) team
          then [UsergroupsUsersUpdate (group_id g) (expectedUserIds (getAllUsers peopleData) team)]
          else [])"
proof -
  obtain names where "usernamesToAdd (cncfBySlackID (getAllUsers peopleData)) (sort (users g))
      (expectedUserIds (getAllUsers peopleData) team) = Some names"
    using usernamesToAdd_expected [of peopleData "sort (users g)" team] by auto
  then show ?thesis
    using assms
    by (simp add: handleTeam_found syncMembers_def checkName_def Let_def run_simps start_def)
qed

lemma calls_live_new:
  assumes "declaresSlack team"
    and "find (\<lambda>g. handle g = groupName team) (getAllGroups ul) = None"
  shows "calls (handleTeam False peopleData ul cid team)
     = UsergroupsCreate (groupName team) (userGroupName team)
       # (if expectedUserIds (getAllUsers peopleData) team \<noteq> []
          then [UsergroupsUsersUpdate cid (expectedUserIds (getAllUsers peopleData) team)]
          else [])"
proof -
  obtain names where "usernamesToAdd (cncfBySlackID (getAllUsers peopleData)) []
      (expectedUserIds (getAllUsers peopleData) team) = Some names"
    using usernamesToAdd_expected [of peopleData "[]" team] by auto
  then show ?thesis
    using assms
    by (auto simp: handleTeam_new syncMembers_def Let_def run_simps start_def)
qed


lemma second_run_quiet:
  assumes st: "\<And>ids. set (stored ids) = set ids"
  shows "contexts (handleTeam dry peopleData
            (afterRun stored cid (handleTeam False peopleData ul cid team) ul) cid' team) = []"
proof (cases "declaresSlack team")
  case False
  then show ?thesis by (simp add: handleTeam_def start_def)
next
  case True
  let ?E = "expectedUserIds (getAllUsers peopleData) team"
  let ?n = "userGroupName team"
  let ?h = "groupName team"
  let ?ul' = "afterRun stored cid (handleTeam False peopleData ul cid team) ul"
  have groups': "getAllGroups ?ul'
      = fold (slackApply stored cid) (calls (handleTeam False peopleData ul cid team))
          (getAllGroups ul)"
    by (rule getAllGroups_afterRun)
  show ?thesis
  proof (cases "find (\<lambda>g. handle g = ?h) (getAllGroups ul)")
    case None
    let ?new = "\<lparr>group_id = cid, date_delete = 0, group_name = ?n, handle = ?h, users = [],
                 is_external = False\<rparr>"
    have found': "find (\<lambda>g. handle g = ?h) (getAllGroups ?ul')
        = Some (if ?E \<noteq> [] then ?new\<lparr>users := stored ?E\<rparr> else ?new)"
      by (simp add: groups' calls_live_new [OF True None] find_setMembers
          find_createGroup [OF None])
    show ?thesis
      by (rule handleTeam_quiet [OF True found']) (simp_all add: st)
  next
    case (Some g)
    let ?g1 = "if group_name g \<noteq> ?n then g\<lparr>group_name := ?n\<rparr> else g"
    let ?g2 = "if sort (users g) \<noteq> ?E then ?g1\<lparr>users := stored ?E\<rparr> else ?g1"
    have found': "find (\<lambda>g. handle g = ?h) (getAllGroups ?ul') = Some ?g2"
      by (simp add: groups' calls_live_found [OF True Some] find_setMembers
          find_renameGroup Some)
    have same: "sort (users g) = ?E \<Longrightarrow> set (users g) = set ?E"
      by (metis set_sort)
    show ?thesis
      by (rule handleTeam_quiet [OF True found']) (auto simp: st dest: same)
  qed
qed


lemma second_run_converged:
  "handleTeam dry peopleData
     (afterRun (\<lambda>ids. ids) cid (handleTeam False peopleData ul cid team) ul) cid' team = start"
proof (cases "declaresSlack team")
  case False
  then show ?thesis by (simp add: handleTeam_def)
next
  case True
  let ?E = "expectedUserIds (getAllUsers peopleData) team"
  let ?n = "userGroupName team"
  let ?h = "groupName team"
  let ?ul' = "afterRun (\<lambda>ids. ids) cid (handleTeam False peopleData ul cid team) ul"
  have groups': "getAllGroups ?ul'
      = fold (slackApply (\<lambda>ids. ids) cid) (calls (handleTeam False peopleData ul cid team))
          (getAllGroups ul)"
    by (rule getAllGroups_afterRun)
  have sorted: "sort ?E = ?E"
    by (simp add: expectedUserIds_def sorted_sort_id)
  show ?thesis
  proof (cases "find (\<lambda>g. handle g = ?h) (getAllGroups ul)")
    case None
    let ?new = "\<lparr>group_id = cid, date_delete = 0, group_name = ?n, handle = ?h, users = [],
                 is_external = False\<rparr>"
    have found': "find (\<lambda>g. handle g = ?h) (getAllGroups ?ul')
        = Some (if ?E \<noteq> [] then ?new\<lparr>users := ?E\<rparr> else ?new)"
      by (simp add: groups' calls_live_new [OF True None] find_setMembers
          find_createGroup [OF None])
    show ?thesis
      by (rule handleTeam_converged [OF found']) (simp_all add: sorted)
  next
    case (Some g)
    let ?g1 = "if group_name g \<noteq> ?n then g\<lparr>group_name := ?n\<rparr> else g"
    let ?g2 = "if sort (users g) \<noteq> ?E then ?g1\<lparr>users := ?E\<rparr> else ?g1"
    have found': "find (\<lambda>g. handle g = ?h) (getAllGroups ?ul') = Some ?g2"
      by (simp add: groups' calls_live_found [OF True Some] find_setMembers
          find_renameGroup Some)
    show ?thesis
      by (rule handleTeam_converged [OF found']) (auto simp: sorted)
  qed
qed


text \<open>
  C4, as amended. The ids compared with the group's users are the expected ids as
  \<open>expectedUserIds\<close> gives them, sorted and with one id for each occurrence of a
  resolvable user name. When the group found by the team's handle already has the wanted
  name and its sorted users are that list, \<open>handleTeam\<close> hands nothing to the builder
  and makes no mutating call, in either mode. When the users and the expected ids agree
  as sets only (an id is expected twice, or listed twice in the group), nothing is handed
  to the builder either, but the live run of a team that declares a handle still calls
  \<^verbatim>\<open>usergroups.users.update\<close> with the expected ids. A second run, on the workspace
  as the calls of a live run have left it, reports nothing, whatever the workspace keeps
  of the ids it was sent as long as it keeps the same set of ids; and when it keeps them
  as sent, the second run makes no call either.
\<close>

theorem converged_team_is_left_alone:
  "(find (\<lambda>g. handle g = groupName team) (getAllGroups usergroups_list) = Some g
      \<and> group_name g = userGroupName team
      \<and> sort (users g) = expectedUserIds (getAllUsers peopleData) team
    \<longrightarrow> contexts (handleTeam IS_DRY_RUN peopleData usergroups_list created_id team) = []
        \<and> calls (handleTeam IS_DRY_RUN peopleData usergroups_list created_id team) = [])
   \<and> ((\<forall>ids. set (stored ids) = set ids)
    \<longrightarrow> contexts (handleTeam IS_DRY_RUN peopleData
                    (afterRun stored created_id
                       (handleTeam False peopleData usergroups_list created_id team)
                       usergroups_list)
                    next_id team) = [])
   \<and> handleTeam IS_DRY_RUN peopleData
        (afterRun (\<lambda>ids. ids) created_id
           (handleTeam False peopleData usergroups_list created_id team) usergroups_list)
        next_id team = start
   \<and> (find (\<lambda>g. handle g = groupName team) (getAllGroups usergroups_list) = Some g
      \<and> group_name g = userGroupName team
      \<and> set (users g) = set (expectedUserIds (getAllUsers peopleData) team)
    \<longrightarrow> contexts (handleTeam IS_DRY_RUN peopleData usergroups_list created_id team) = [])
   \<and> (declaresSlack team
      \<and> find (\<lambda>g. handle g = groupName team) (getAllGroups usergroups_list) = Some g
      \<and> group_name g = userGroupName team
      \<and> sort (users g) \<noteq> expectedUserIds (getAllUsers peopleData) team
    \<longrightarrow> calls (handleTeam False peopleData usergroups_list created_id team)
          = [UsergroupsUsersUpdate (group_id g) (expectedUserIds (getAllUsers peopleData) team)])"
proof (intro conjI impI)
  assume "find (\<lambda>g. handle g = groupName team) (getAllGroups usergroups_list) = Some g
      \<and> group_name g = userGroupName team
      \<and> sort (users g) = expectedUserIds (getAllUsers peopleData) team"
  then have "handleTeam IS_DRY_RUN peopleData usergroups_list created_id team = start"
    by (simp add: handleTeam_converged)
  then show "contexts (handleTeam IS_DRY_RUN peopleData usergroups_list created_id team) = []"
    and "calls (handleTeam IS_DRY_RUN peopleData usergroups_list created_id team) = []"
    by (simp_all add: start_def)
next
  assume "\<forall>ids. set (stored ids) = set ids"
  then show "contexts (handleTeam IS_DRY_RUN peopleData
                    (afterRun stored created_id
                       (handleTeam False peopleData usergroups_list created_id team)
                       usergroups_list)
                    next_id team) = []"
    by (simp add: second_run_quiet)
next
  show "handleTeam IS_DRY_RUN peopleData
        (afterRun (\<lambda>ids. ids) created_id
           (handleTeam False peopleData usergroups_list created_id team) usergroups_list)
        next_id team = start"
    by (rule second_run_converged)
next
  assume same: "find (\<lambda>g. handle g = groupName team) (getAllGroups usergroups_list) = Some g
      \<and> group_name g = userGroupName team
      \<and> set (users g) = set (expectedUserIds (getAllUsers peopleData) team)"
  show "contexts (handleTeam IS_DRY_RUN peopleData usergroups_list created_id team) = []"
  proof (cases "declaresSlack team")
    case True
    with same show ?thesis by (simp add: handleTeam_quiet)
  next
    case False
    then show ?thesis by (simp add: handleTeam_def start_def)
  qed
next
  assume "declaresSlack team
      \<and> find (\<lambda>g. handle g = groupName team) (getAllGroups usergroups_list) = Some g
      \<and> group_name g = userGroupName team
      \<and> sort (users g) \<noteq> expectedUserIds (getAllUsers peopleData) team"
  then show "calls (handleTeam False peopleData usergroups_list created_id team)
          = [UsergroupsUsersUpdate (group_id g) (expectedUserIds (getAllUsers peopleData) team)]"
    by (simp add: calls_live_found)
qed

text \<open>
  The claim as first stated fails where an id is expected twice: the group of a team whose
  one maintainer is also listed as a member has exactly that member and the wanted name,
  so its sorted users are the expected ids with the duplicate collapsed; nothing is
  reported, but the live run calls \<^verbatim>\<open>usergroups.users.update\<close> with the id twice.
\<close>

theorem converged_team_is_left_alone_counterexample:
  "declaresSlack (exampleTeam ''infra'' [''alice''] [''alice''])
   \<and> getAllGroups (listing [exampleGroup ''G1'' ''infra'' [''U1'']])
     = [exampleGroup ''G1'' ''infra'' [''U1'']]
   \<and> handle (exampleGroup ''G1'' ''infra'' [''U1''])
     = groupName (exampleTeam ''infra'' [''alice''] [''alice''])
   \<and> group_name (exampleGroup ''G1'' ''infra'' [''U1''])
     = userGroupName (exampleTeam ''infra'' [''alice''] [''alice''])
   \<and> sort (users (exampleGroup ''G1'' ''infra'' [''U1'']))
     = sort (remdups (expectedUserIds
         (getAllUsers [examplePerson ''https://github.com/alice'' ''U1''])
         (exampleTeam ''infra'' [''alice''] [''alice''])))
   \<and> contexts (handleTeam False [examplePerson ''https://github.com/alice'' ''U1'']
        (listing [exampleGroup ''G1'' ''infra'' [''U1'']]) ''G9''
        (exampleTeam ''infra'' [''alice''] [''alice''])) = []
   \<and> calls (handleTeam False [examplePerson ''https://github.com/alice'' ''U1'']
        (listing [exampleGroup ''G1'' ''infra'' [''U1'']]) ''G9''
        (exampleTeam ''infra'' [''alice''] [''alice'']))
     = [UsergroupsUsersUpdate ''G1'' [''U1'', ''U1'']]
   \<and> calls (handleTeam False [examplePerson ''https://github.com/alice'' ''U1'']
        (listing [exampleGroup ''G1'' ''infra'' [''U1'']]) ''G9''
        (exampleTeam ''infra'' [''alice''] [''alice''])) \<noteq> []"
  by code_simp

text \<open>
  A group that already has the team's two members; the creation of the group by a live
  run, followed by a second run; and a group whose users agree with the expected ids as
  a set only.
\<close>

theorem converged_team_is_left_alone_witness:
  "find (\<lambda>g. handle g = groupName (exampleTeam ''infra'' [''alice''] [''Bob'']))
       (getAllGroups (listing [exampleGroup ''G1'' ''infra'' [''U2'', ''U1'']]))
     = Some (exampleGroup ''G1'' ''infra'' [''U2'', ''U1''])
   \<and> group_name (exampleGroup ''G1'' ''infra'' [''U2'', ''U1''])
     = userGroupName (exampleTeam ''infra'' [''alice''] [''Bob''])
   \<and> sort (users (exampleGroup ''G1'' ''infra'' [''U2'', ''U1'']))
     = expectedUserIds (getAllUsers [examplePerson ''alice'' ''U1'', examplePerson ''bob'' ''U2''])
         (exampleTeam ''infra'' [''alice''] [''Bob''])
   \<and> contexts (handleTeam False [examplePerson ''alice'' ''U1'', examplePerson ''bob'' ''U2'']
        (listing [exampleGroup ''G1'' ''infra'' [''U2'', ''U1'']]) ''G9''
        (exampleTeam ''infra'' [''alice''] [''Bob''])) = []
   \<and> calls (handleTeam False [examplePerson ''alice'' ''U1'', examplePerson ''bob'' ''U2'']
        (listing [exampleGroup ''G1'' ''infra'' [''U2'', ''U1'']]) ''G9''
        (exampleTeam ''infra'' [''alice''] [''Bob''])) = []
   \<and> afterRun remdups ''G9''
        (handleTeam False [examplePerson ''alice'' ''U1'', examplePerson ''bob'' ''U2'']
           (listing []) ''G9'' (exampleTeam ''infra'' [''alice''] [''Bob'']))
        (listing []) listRequest
     = [exampleGroup ''G9'' ''infra'' [''U1'', ''U2'']]
   \<and> contexts (handleTeam False [examplePerson ''alice'' ''U1'', examplePerson ''bob'' ''U2'']
        (afterRun remdups ''G9''
           (handleTeam False [examplePerson ''alice'' ''U1'', examplePerson ''bob'' ''U2'']
              (listing []) ''G9'' (exampleTeam ''infra'' [''alice''] [''Bob'']))
           (listing []))
        ''G10'' (exampleTeam ''infra'' [''alice''] [''Bob''])) = []
   \<and> set (users (exampleGroup ''G1'' ''infra'' [''U1'']))
     = set (expectedUserIds (getAllUsers [examplePerson ''alice'' ''U1''])
              (exampleTeam ''infra'' [''alice''] [''alice'']))
   \<and> sort (users (exampleGroup ''G1'' ''infra'' [''U1'']))
     \<noteq> expectedUserIds (getAllUsers [examplePerson ''alice'' ''U1''])
         (exampleTeam ''infra'' [''alice''] [''alice''])
   \<and> contexts (handleTeam False [examplePerson ''alice'' ''U1'']
        (listing [exampleGroup ''G1'' ''infra'' [''U1'']]) ''G9''
        (exampleTeam ''infra'' [''alice''] [''alice''])) = []
   \<and> calls (handleTeam False [examplePerson ''alice'' ''U1'']
        (listing [exampleGroup ''G1'' ''infra'' [''U1'']]) ''G9''
        (exampleTeam ''infra'' [''alice''] [''alice'']))
     = [UsergroupsUsersUpdate ''G1'' [''U1'', ''U1'']]"
proof -
  let ?t = "exampleTeam ''infra'' [''alice''] [''Bob'']"
  let ?p = "[examplePerson ''alice'' ''U1'', examplePerson ''bob'' ''U2'']"
  let ?g = "exampleGroup ''G1'' ''infra'' [''U2'', ''U1'']"
  let ?t2 = "exampleTeam ''infra'' [''alice''] [''alice'']"
  let ?p2 = "[examplePerson ''alice'' ''U1'']"
  let ?g2 = "exampleGroup ''G1'' ''infra'' [''U1'']"
  have found: "find (\<lambda>g. handle g = groupName ?t) (getAllGroups (listing [?g])) = Some ?g"
    by (simp add: getAllGroups_def listing_def exampleGroup_def groupName_def exampleTeam_def)
  have named: "group_name ?g = userGroupName ?t"
    by (simp add: exampleGroup_def userGroupName_def exampleTeam_def)
  have members: "sort (users ?g) = expectedUserIds (getAllUsers ?p) ?t"
    by code_simp
  have after: "afterRun remdups ''G9'' (handleTeam False ?p (listing []) ''G9'' ?t)
                 (listing []) listRequest
      = [exampleGroup ''G9'' ''infra'' [''U1'', ''U2'']]"
    by code_simp
  have keeps: "\<forall>ids. set (remdups ids) = set ids"
    by simp
  have decl2: "declaresSlack ?t2"
    by (simp add: declaresSlack_def exampleTeam_def)
  have found2: "find (\<lambda>g. handle g = groupName ?t2) (getAllGroups (listing [?g2])) = Some ?g2"
    by (simp add: getAllGroups_def listing_def exampleGroup_def groupName_def exampleTeam_def)
  have named2: "group_name ?g2 = userGroupName ?t2"
    by (simp add: exampleGroup_def userGroupName_def exampleTeam_def)
  have twice: "expectedUserIds (getAllUsers ?p2) ?t2 = [''U1'', ''U1'']"
    by code_simp
  have one: "users ?g2 = [''U1'']" "group_id ?g2 = ''G1''"
    by (simp_all add: exampleGroup_def)
  have sets2: "set (users ?g2) = set (expectedUserIds (getAllUsers ?p2) ?t2)"
    by (simp add: twice one)
  have lists2: "sort (users ?g2) \<noteq> expectedUserIds (getAllUsers ?p2) ?t2"
    by (simp add: twice one)
  note all = converged_team_is_left_alone
      [of ?t "listing [?g]" ?g ?p False "''G9''" remdups]
  from all found named members
  have first: "contexts (handleTeam False ?p (listing [?g]) ''G9'' ?t) = []
      \<and> calls (handleTeam False ?p (listing [?g]) ''G9'' ?t) = []"
    by blast
  have second: "contexts (handleTeam False ?p
          (afterRun remdups ''G9'' (handleTeam False ?p (listing []) ''G9'' ?t) (listing []))
          ''G10'' ?t) = []"
    using converged_team_is_left_alone
      [of ?t "listing []" _ ?p False "''G9''" remdups "''G10''", THEN conjunct2, THEN conjunct1]
      keeps
    by (rule mp)
  note dup = converged_team_is_left_alone
      [of ?t2 "listing [?g2]" ?g2 ?p2 False "''G9''" remdups]
  from dup found2 named2 sets2
  have quiet2: "contexts (handleTeam False ?p2 (listing [?g2]) ''G9'' ?t2) = []"
    by blast
  from dup decl2 found2 named2 lists2
  have "calls (handleTeam False ?p2 (listing [?g2]) ''G9'' ?t2)
      = [UsergroupsUsersUpdate (group_id ?g2) (expectedUserIds (getAllUsers ?p2) ?t2)]"
    by blast
  then have calls2: "calls (handleTeam False ?p2 (listing [?g2]) ''G9'' ?t2)
      = [UsergroupsUsersUpdate ''G1'' [''U1'', ''U1'']]"
    by (simp only: twice one)
  show ?thesis
    using found named members first after second sets2 lists2 quiet2 calls2
    by (intro conjI) simp_all
qed

end
